theory Spec2Isabelle
  imports Complex_Main "HOL-Library.Word"
begin

unbundle bit_operations_syntax

section \<open>The Zeus driver (driver-zeus.c): data model\<close>

text \<open>
  Machine integers of the driver: \<open>unsigned char\<close> is an 8-bit word, \<open>uint32_t\<close> a
  32-bit word and \<open>uint64_t\<close> a 64-bit word; arithmetic on them wraps around. Values of
  type \<open>int\<close> that the driver only compares, or computes with far below the range of
  \<open>int\<close> (clock frequencies, chip counts, file descriptors), are HOL integers.
\<close>

type_synonym u8 = "8 word"
type_synonym u32 = "32 word"
type_synonym u64 = "64 word"

text \<open>
  Modelled from the spec: the header driver-zeus.h is not among the sources. The spec
  fixes the number of cores of a chip (8), the length of a command packet (84 bytes) and
  the length of an event packet (4 bytes, the type \<open>event_pkt\<close> below). The clock range
  \<open>ZEUS_CLK_MIN\<close>, \<open>ZEUS_CLK_MAX\<close> and the bound \<open>ZEUS_MAX_CHIPS\<close> are given by neither
  the sources nor the spec: the functions that use them take them as parameters.
\<close>

definition ZEUS_CHIP_CORES :: nat where
  "ZEUS_CHIP_CORES = 8"

definition ZEUS_COMMAND_PKT_LEN :: nat where
  "ZEUS_COMMAND_PKT_LEN = 84"

subsection \<open>Double-precision values\<close>

text \<open>
  A finite \<open>double\<close> is the real number it denotes. An arithmetic operation on doubles
  is the exact operation followed by the rounding of the platform, a parameter
  \<open>rnd\<close> of every function that computes with doubles. \<open>ieee_rounding rnd\<close> states the
  two facts about IEEE-754 binary64 rounding to nearest that the proofs use: an integer
  of magnitude at most \<open>2^53\<close> is a double, and in the normal range the relative error
  of a rounding is at most \<open>2^-53\<close>.

  The conversion of a double to an integer type truncates toward zero; when the
  truncated value is not representable in the target type the behaviour of the C
  program is undefined, which the conversions return as \<open>None\<close>.
\<close>

definition ieee_rounding :: "(real \<Rightarrow> real) \<Rightarrow> bool" where
  "ieee_rounding rnd \<longleftrightarrow>
     (\<forall>n::int. \<bar>n\<bar> \<le> 2 ^ 53 \<longrightarrow> rnd (of_int n) = of_int n) \<and>
     (\<forall>x::real. 1 / 2 \<le> \<bar>x\<bar> \<and> \<bar>x\<bar> \<le> 2 ^ 53 \<longrightarrow> \<bar>rnd x - x\<bar> \<le> \<bar>x\<bar> / 2 ^ 53)"

definition c_trunc :: "real \<Rightarrow> int" where
  "c_trunc x = (if 0 \<le> x then floor x else ceiling x)"

definition double_to_u8 :: "real \<Rightarrow> u8 option" where
  "double_to_u8 x = (if 0 \<le> c_trunc x \<and> c_trunc x < 2 ^ 8 then Some (word_of_int (c_trunc x)) else None)"

definition double_to_u32 :: "real \<Rightarrow> u32 option" where
  "double_to_u32 x = (if 0 \<le> c_trunc x \<and> c_trunc x < 2 ^ 32 then Some (word_of_int (c_trunc x)) else None)"

definition double_to_u64 :: "real \<Rightarrow> u64 option" where
  "double_to_u64 x = (if 0 \<le> c_trunc x \<and> c_trunc x < 2 ^ 64 then Some (word_of_int (c_trunc x)) else None)"



subsection \<open>Byte order\<close>

text \<open>
  \<open>be32toh\<close> depends on the byte order of the host, as does the \<open>memcpy\<close> of four
  received bytes into a \<open>uint32_t\<close>.
\<close>

datatype endian = LittleEndian | BigEndian

definition bswap32 :: "u32 \<Rightarrow> u32" where
  "bswap32 x = push_bit 24 (x AND 0xff) OR push_bit 8 (x AND 0xff00)
               OR drop_bit 8 (x AND 0xff0000) OR drop_bit 24 (x AND 0xff000000)"

definition be32toh :: "endian \<Rightarrow> u32 \<Rightarrow> u32" where
  "be32toh e x = (case e of LittleEndian \<Rightarrow> bswap32 x | BigEndian \<Rightarrow> x)"

text \<open>A 4-byte buffer (\<open>nonce_bin\<close>, \<open>evtpkt\<close>), in memory order.\<close>

type_synonym event_pkt = "u8 \<times> u8 \<times> u8 \<times> u8"

definition memcpy_u32 :: "endian \<Rightarrow> event_pkt \<Rightarrow> u32" where
  "memcpy_u32 e pkt = (case pkt of (b0, b1, b2, b3) \<Rightarrow>
     (case e of
        LittleEndian \<Rightarrow> ucast b0 OR push_bit 8 (ucast b1) OR push_bit 16 (ucast b2) OR push_bit 24 (ucast b3)
      | BigEndian \<Rightarrow> push_bit 24 (ucast b0) OR push_bit 16 (ucast b1) OR push_bit 8 (ucast b2) OR ucast b3))"

subsection \<open>Utility functions\<close>

text \<open>
  \<open>rev\<close> (lines 73-83) swaps \<open>s[i]\<close> and \<open>s[j]\<close> while \<open>i < j\<close>, from \<open>i = 0\<close> and
  \<open>j = l - 1\<close>. With \<open>l = 0\<close> the unsigned \<open>j\<close> wraps to the largest \<open>size_t\<close> and the
  loop reads outside the buffer, as it does when \<open>l\<close> exceeds the buffer: \<open>None\<close>.
\<close>

function rev_loop :: "'a list \<Rightarrow> nat \<Rightarrow> nat \<Rightarrow> 'a list" where
  "rev_loop s i j = (if i < j then rev_loop (s[i := s ! j, j := s ! i]) (i + 1) (j - 1) else s)"
  by pat_completeness auto
termination
  by (relation "measure (\<lambda>(s, i, j). j - i)") auto

declare rev_loop.simps [simp del]

definition rev_c :: "'a list \<Rightarrow> nat \<Rightarrow> 'a list option" where
  "rev_c s l = (if l = 0 \<or> length s < l then None else Some (rev_loop s 0 (l - 1)))"

text \<open>\<open>log_2\<close> (lines 85-93): the loop halves \<open>value\<close> while it exceeds 1 and counts.\<close>

function log_2_loop :: "int \<Rightarrow> int \<Rightarrow> int" where
  "log_2_loop v x = (if v > 1 then log_2_loop (v div 2) (x + 1) else x)"
  by pat_completeness auto
termination
  by (relation "measure (\<lambda>(v, x). nat v)") auto

declare log_2_loop.simps [simp del]

definition log_2 :: "int \<Rightarrow> int" where
  "log_2 v = log_2_loop v 0"

text \<open>
  \<open>chip_index\<close> (lines 95-111). The loop runs \<open>bit_num\<close> times (not at all when
  \<open>bit_num \<le> 0\<close>); its first argument below is the number of iterations left. A shift
  count \<open>29 - bit_num\<close> outside \<open>0..31\<close> is undefined in C: \<open>None\<close>.
\<close>

fun chip_index_loop :: "nat \<Rightarrow> u32 \<Rightarrow> u32 \<Rightarrow> u32" where
  "chip_index_loop 0 v newvalue = newvalue"
| "chip_index_loop (Suc n) v newvalue =
     chip_index_loop n (drop_bit 1 v) (push_bit 1 newvalue + (v AND 0x01))"

definition chip_index :: "u32 \<Rightarrow> int \<Rightarrow> u32 option" where
  "chip_index v bit_num =
     (if 29 - bit_num < 0 \<or> 32 \<le> 29 - bit_num then None
      else Some (chip_index_loop (nat bit_num)
                   (drop_bit (nat (29 - bit_num)) (v AND 0x1ff80000)) 0))"

text \<open>
  \<open>lowest_pow2\<close> (lines 113-122): \<open>i\<close> starts at 1 and doubles while \<open>i < 1024\<close>. The
  loop variable is positive throughout; the guard \<open>0 < i\<close> records it and makes the
  recursion total.
\<close>

function lowest_pow2_loop :: "int \<Rightarrow> int \<Rightarrow> int" where
  "lowest_pow2_loop m i =
     (if 0 < i \<and> i < 1024 then (if m \<le> i then i else lowest_pow2_loop m (i * 2)) else 1024)"
  by pat_completeness auto
termination
  by (relation "measure (\<lambda>(m, i). nat (1024 - i))") auto

declare lowest_pow2_loop.simps [simp del]

definition lowest_pow2 :: "int \<Rightarrow> int" where
  "lowest_pow2 m = lowest_pow2_loop m 1"

subsection \<open>Works, boards and the log\<close>

text \<open>
  \<open>struct work\<close> is declared in miner.h, which is not among the sources; the driver
  uses its \<open>data\<close> bytes (the first 80), the \<open>double\<close> \<open>work_difficulty\<close> and
  \<open>devflag\<close> (set once the work has been written to the device).
\<close>

record work =
  data :: "u8 list"
  work_difficulty :: real
  devflag :: bool

record timeval =
  tv_sec :: int
  tv_usec :: int

text \<open>
  The fields of \<open>struct ZEUS_INFO\<close> that the modelled functions read or write. The
  counters are natural numbers (their C types are in the missing header). The handles of
  the thread, the lock, the pipe and the device name are left out.
\<close>

record ZEUS_INFO =
  device_fd :: int
  cores_per_chip :: int
  chips_count :: int
  chips_count_max :: int
  chips_bit_num :: int
  chip_clk :: int
  next_chip_clk :: int
  freqcode :: u8
  golden_speed_per_core :: u64
  read_count :: u32
  work_timeout :: timeval
  workstart :: timeval
  scanwork_time :: timeval
  current_work :: "work option"
  workdone :: nat
  nonce_count :: "nat \<Rightarrow> nat \<Rightarrow> nat"
  error_count :: "nat \<Rightarrow> nat \<Rightarrow> nat"

text \<open>The messages of \<open>applog\<close> that mark a branch of the modelled functions.\<close>

datatype log_msg =
    ClockTooHigh int
  | ClockTooLow int
  | GoldenTestFailed u32 u32
  | ReadIOError
  | FlushedWorkNonce
  | CorruptNonce

subsection \<open>Detection and setup\<close>

text \<open>
  \<open>zeus_clk_to_freqcode\<close> (lines 240-255). The two comparisons run in the order of the
  source; the result is \<open>(unsigned char)((double)clkfreq * 2. / 3.)\<close>.
\<close>

definition zeus_clk_to_freqcode ::
  "(real \<Rightarrow> real) \<Rightarrow> int \<Rightarrow> int \<Rightarrow> int \<Rightarrow> (u8 \<times> log_msg list) option" where
  "zeus_clk_to_freqcode rnd ZEUS_CLK_MIN ZEUS_CLK_MAX clkfreq =
     (let (clk1, log1) = (if clkfreq > ZEUS_CLK_MAX then (ZEUS_CLK_MAX, [ClockTooHigh clkfreq])
                          else (clkfreq, []));
          (clk2, log2) = (if clk1 < ZEUS_CLK_MIN then (ZEUS_CLK_MIN, log1 @ [ClockTooLow clk1])
                          else (clk1, log1))
      in case double_to_u8 (rnd (rnd (real_of_int clk2 * 2) / 3)) of
           None \<Rightarrow> None
         | Some code \<Rightarrow> Some (code, log2))"

text \<open>
  \<open>zeus_detect_one\<close> (lines 257-414). The options are the globals
  \<open>opt_zeus_chips_count\<close>, \<open>opt_zeus_chip_clk\<close> and \<open>opt_zeus_nocheck_golden\<close>; the
  process-wide \<open>opt_zeus_chips_count_max\<close> (initially 1) is passed in and returned.
  The environment holds what the calls into the operating system and the host return.
\<close>

record detect_options =
  opt_zeus_chips_count :: int
  opt_zeus_chip_clk :: int
  opt_zeus_nocheck_golden :: bool

record detect_env =
  open_fd :: int
  nonce_bin :: event_pkt
  golden_tdiff :: real
  calloc_ok :: bool
  add_cgpu_ok :: bool

datatype detect_result = DetectFailed | DetectQuit | Detected ZEUS_INFO

definition golden_nonce_val :: "endian \<Rightarrow> u32" where
  "golden_nonce_val e = be32toh e 0x268d0300"

text \<open>Lines 341-342: the nonce that the self-test decodes from the received bytes.\<close>

definition golden_nonce_read :: "endian \<Rightarrow> event_pkt \<Rightarrow> u32" where
  "golden_nonce_read e nonce_bin_buf = be32toh e (memcpy_u32 e nonce_bin_buf)"

text \<open>
  Lines 351 and 358: the speed per core, a double converted to \<open>uint64_t\<close>. A zero
  \<open>tdiff\<close> makes the quotient infinite, which no integer conversion defines.
\<close>

definition golden_speed_measured :: "(real \<Rightarrow> real) \<Rightarrow> real \<Rightarrow> u64 option" where
  "golden_speed_measured rnd td = (if td = 0 then None else double_to_u64 (rnd (3366 / td)))"

definition golden_speed_nocheck :: "(real \<Rightarrow> real) \<Rightarrow> int \<Rightarrow> u64 option" where
  "golden_speed_nocheck rnd clk =
     double_to_u64 (rnd (rnd (rnd (rnd (real_of_int clk * 2) / 3) * 1024) / 8))"

text \<open>
  Lines 392-396: the timeout and the read count. The products are formed in
  \<open>uint64_t\<close> and wrap; a zero divisor is undefined.
\<close>

definition detect_work_timeout :: "u64 \<Rightarrow> int \<Rightarrow> int \<Rightarrow> timeval option" where
  "detect_work_timeout g cores chips =
     (let p = g * word_of_int cores * word_of_int chips in
      if p = 0 then None
      else Some \<lparr> tv_sec = uint (4294967296 div p),
                  tv_usec = uint (((4294967296 * 1000000) div p) mod 1000000) \<rparr>)"

definition detect_read_count :: "u64 \<Rightarrow> int \<Rightarrow> int \<Rightarrow> u32 option" where
  "detect_read_count g cores chips_max =
     (let q = word_of_int (cores * chips_max) * g * 2 in
      if q = 0 then None
      else Some ((ucast ((4294967296 * 10) div q) :: u32) * 3 div 4))"

text \<open>
  Lines 361-413: the board is allocated, filled in and registered. \<open>quit\<close> ends the
  process (\<open>DetectQuit\<close>).
\<close>

definition detect_register ::
  "detect_options \<Rightarrow> detect_env \<Rightarrow> int \<Rightarrow> u8 \<Rightarrow> u64 \<Rightarrow> detect_result option" where
  "detect_register opts env chips_max code g =
     (let cores = int ZEUS_CHIP_CORES;
          chips = opt_zeus_chips_count opts
      in
      if \<not> calloc_ok env then Some DetectQuit
      else
        (case detect_work_timeout g cores chips of
           None \<Rightarrow> None
         | Some timeout \<Rightarrow>
             (case detect_read_count g cores chips_max of
                None \<Rightarrow> None
              | Some rc \<Rightarrow>
                  if chips_max AND (chips_max - 1) \<noteq> 0 then Some DetectQuit
                  else if \<not> add_cgpu_ok env then Some DetectQuit
                  else Some (Detected \<lparr>
                         device_fd = - 1,
                         cores_per_chip = cores,
                         chips_count = chips,
                         chips_count_max = chips_max,
                         chips_bit_num = log_2 chips_max,
                         chip_clk = opt_zeus_chip_clk opts,
                         next_chip_clk = - 1,
                         freqcode = code,
                         golden_speed_per_core = g,
                         read_count = rc,
                         work_timeout = timeout,
                         workstart = \<lparr> tv_sec = 0, tv_usec = 0 \<rparr>,
                         scanwork_time = \<lparr> tv_sec = 0, tv_usec = 0 \<rparr>,
                         current_work = None,
                         workdone = 0,
                         nonce_count = (\<lambda>chip core. 0),
                         error_count = (\<lambda>chip core. 0) \<rparr>))))"

text \<open>
  The result is the outcome, the new value of \<open>opt_zeus_chips_count_max\<close> and the log;
  \<open>None\<close> is undefined behaviour. The four priming packets and the golden command are
  written with \<open>hex2bin\<close> and \<open>zeus_write\<close>, which change nothing that is returned.
\<close>

definition zeus_detect_one ::
  "(real \<Rightarrow> real) \<Rightarrow> endian \<Rightarrow> int \<Rightarrow> int \<Rightarrow> detect_options \<Rightarrow> detect_env \<Rightarrow> int
     \<Rightarrow> (detect_result \<times> int \<times> log_msg list) option" where
  "zeus_detect_one rnd e ZEUS_CLK_MIN ZEUS_CLK_MAX opts env opt_zeus_chips_count_max =
     (let chips = opt_zeus_chips_count opts;
          gmax = (if chips > opt_zeus_chips_count_max then lowest_pow2 chips
                  else opt_zeus_chips_count_max);
          chips_max = gmax;
          clk = opt_zeus_chip_clk opts
      in
      if open_fd env = - 1 then Some (DetectFailed, gmax, [])
      else
        (case zeus_clk_to_freqcode rnd ZEUS_CLK_MIN ZEUS_CLK_MAX clk of
           None \<Rightarrow> None
         | Some (code, log1) \<Rightarrow>
             (case zeus_clk_to_freqcode rnd ZEUS_CLK_MIN ZEUS_CLK_MAX (if clk > 150 then 165 else 139) of
                None \<Rightarrow> None
              | Some (code_init, log2) \<Rightarrow>
                  if \<not> opt_zeus_nocheck_golden opts then
                    (let nonce = golden_nonce_read e (nonce_bin env) in
                     if nonce \<noteq> golden_nonce_val e
                     then Some (DetectFailed, gmax, log1 @ log2 @ [GoldenTestFailed nonce (golden_nonce_val e)])
                     else
                       (case golden_speed_measured rnd (golden_tdiff env) of
                          None \<Rightarrow> None
                        | Some g \<Rightarrow>
                            (case detect_register opts env chips_max code g of
                               None \<Rightarrow> None
                             | Some r \<Rightarrow> Some (r, gmax, log1 @ log2))))
                  else
                    (case golden_speed_nocheck rnd clk of
                       None \<Rightarrow> None
                     | Some g \<Rightarrow>
                         (case detect_register opts env chips_max code g of
                            None \<Rightarrow> None
                          | Some r \<Rightarrow> Some (r, gmax, log1 @ log2))))))"

section \<open>The protocol between host and ASIC\<close>

text \<open>\<open>zeus_purge_work\<close> (lines 420-427) frees the current work and empties the slot.\<close>

definition zeus_purge_work :: "ZEUS_INFO \<Rightarrow> ZEUS_INFO" where
  "zeus_purge_work info = (if current_work info \<noteq> None then info\<lparr>current_work := None\<rparr> else info)"

text \<open>
  \<open>zeus_read_response\<close> (lines 429-478). \<open>ret\<close> is what \<open>zeus_read\<close> returns, \<open>evtpkt\<close>
  the buffer it filled and \<open>valid\<close> the answer of \<open>submit_nonce\<close>. The core is the
  value of \<open>(nonce & 0xe0000000) >> 29\<close>.
\<close>

definition nonce_core :: "u32 \<Rightarrow> u32" where
  "nonce_core nonce = drop_bit 29 (nonce AND 0xe0000000)"

definition zeus_read_response ::
  "endian \<Rightarrow> nat \<Rightarrow> int \<Rightarrow> event_pkt \<Rightarrow> bool \<Rightarrow> ZEUS_INFO \<Rightarrow> (bool \<times> ZEUS_INFO \<times> log_msg list) option" where
  "zeus_read_response e ZEUS_MAX_CHIPS ret evtpkt valid info =
     (if ret \<le> 0 then Some (False, (zeus_purge_work info)\<lparr>device_fd := - 1\<rparr>, [ReadIOError])
      else
        (let nonce = be32toh e (memcpy_u32 e evtpkt) in
         if current_work info = None then Some (True, info, [FlushedWorkNonce])
         else
           (let info1 = info\<lparr>workdone := workdone info + 1\<rparr> in
            case chip_index nonce (chips_bit_num info1) of
              None \<Rightarrow> None
            | Some chip \<Rightarrow>
                (let core = nonce_core nonce in
                 if unat chip < ZEUS_MAX_CHIPS \<and> unat core < ZEUS_CHIP_CORES then
                   (let info2 = info1\<lparr>nonce_count :=
                          (nonce_count info1)(unat chip := (nonce_count info1 (unat chip))
                             (unat core := nonce_count info1 (unat chip) (unat core) + 1))\<rparr>
                    in Some (True,
                         (if \<not> valid then info2\<lparr>error_count :=
                            (error_count info2)(unat chip := (error_count info2 (unat chip))
                               (unat core := error_count info2 (unat chip) (unat core) + 1))\<rparr>
                          else info2), []))
                 else Some (True, info1, [CorruptNonce])))))"

text \<open>
  \<open>zeus_check_need_work\<close> (lines 480-506). The slot is read without the lock
  (\<open>info\<close>), \<open>get_work\<close> returns \<open>work\<close>, and \<open>locked\<close> is the board as the function
  finds it once it holds the lock: other threads may have changed it in between. The
  result is \<open>need_work\<close>, the board when the lock is released, the works passed to
  \<open>discard_work\<close> and the works pulled with \<open>get_work\<close>.
\<close>

definition zeus_check_need_work ::
  "ZEUS_INFO \<Rightarrow> work \<Rightarrow> ZEUS_INFO \<Rightarrow> bool \<times> ZEUS_INFO \<times> work list \<times> work list" where
  "zeus_check_need_work info work locked =
     (if current_work info = None then
        (if current_work locked = None
         then (True, locked\<lparr>current_work := Some (work\<lparr>devflag := False\<rparr>)\<rparr>, [], [work])
         else (False, locked, [work], [work]))
      else (False, info, [], []))"

text \<open>
  \<open>zeus_send_work\<close> (lines 508-541). \<open>ret\<close> is what \<open>zeus_write\<close> returns. The result
  is the return value, the board and the buffer \<open>cmdpkt\<close> handed to the one call of
  \<open>zeus_write\<close>. \<open>memcpy\<close> reads 80 bytes of \<open>work->data\<close>, an array that holds at
  least as many; a shorter list is no work of the program (\<open>None\<close>).
\<close>

definition zeus_send_work ::
  "int \<Rightarrow> ZEUS_INFO \<Rightarrow> work \<Rightarrow> (bool \<times> ZEUS_INFO \<times> u8 list) option" where
  "zeus_send_work ret info work =
     (case double_to_u32 (work_difficulty work) of
        None \<Rightarrow> None
      | Some diff0 \<Rightarrow>
          (let diff = (if diff0 < 1 then 1 else diff0);
               diff_code = 0xffff div diff;
               header = [freqcode info, NOT (freqcode info),
                         ucast (drop_bit 8 (diff_code AND 0xff00)),
                         ucast (diff_code AND 0x00ff)]
           in
           if length (data work) < 80 then None
           else
             (case rev_c (take 80 (data work)) 80 of
                None \<Rightarrow> None
              | Some payload \<Rightarrow>
                  (let cmdpkt = header @ payload in
                   if ret < 0
                   then Some (False, (zeus_purge_work info)\<lparr>device_fd := - 1\<rparr>, cmdpkt)
                   else Some (True, info, cmdpkt)))))"

text \<open>
  \<open>zeus_io_thread\<close>, lines 578-596: the step of the loop that sends the current work,
  under the lock. \<open>now\<close> is the time \<open>cgtime\<close> reads. The result is the board and the
  packets written.
\<close>

definition zeus_io_thread_send ::
  "int \<Rightarrow> timeval \<Rightarrow> ZEUS_INFO \<Rightarrow> (ZEUS_INFO \<times> u8 list list) option" where
  "zeus_io_thread_send ret now info =
     (case current_work info of
        None \<Rightarrow> Some (info, [])
      | Some w \<Rightarrow>
          if devflag w then Some (info, [])
          else
            (case zeus_send_work ret info w of
               None \<Rightarrow> None
             | Some (sent, info1, cmdpkt) \<Rightarrow>
                 if sent then
                   (let info2 = info1\<lparr>current_work := Some (w\<lparr>devflag := True\<rparr>), workstart := now\<rparr>
                    in Some ((if next_chip_clk info2 \<noteq> - 1
                              then info2\<lparr>chip_clk := next_chip_clk info2, next_chip_clk := - 1\<rparr>
                              else info2), [cmdpkt]))
                 else Some (info1, [cmdpkt])))"

section \<open>The interface to the host\<close>


text \<open>
  \<open>zeus_set_device\<close> (lines 793-844). \<open>strcasecmp\<close> compares without regard to the case
  of ASCII letters; \<open>atoi\<close> is the C library's and a parameter. \<open>setting\<close> is \<open>None\<close>
  for a null pointer. The result is the reply (\<open>None\<close> for the null pointer that means
  success), the board and the number of bytes written to the wake pipe.
\<close>

definition tolower_c :: "char \<Rightarrow> char" where
  "tolower_c c = (let n = (of_char c :: nat) in if 65 \<le> n \<and> n \<le> 90 then char_of (n + 32) else c)"

definition strcasecmp_eq :: "string \<Rightarrow> string \<Rightarrow> bool" where
  "strcasecmp_eq a b \<longleftrightarrow> map tolower_c a = map tolower_c b"

datatype reply =
    ReplyHelp int int
  | ReplyMissingFreq
  | ReplyInvalidFreq string int int
  | ReplyMissingTrueFalse
  | ReplyNotAborting
  | ReplyUnknownOption string

definition zeus_set_device ::
  "(real \<Rightarrow> real) \<Rightarrow> int \<Rightarrow> int \<Rightarrow> (string \<Rightarrow> int) \<Rightarrow> ZEUS_INFO \<Rightarrow> string \<Rightarrow> string option
     \<Rightarrow> (reply option \<times> ZEUS_INFO \<times> nat) option" where
  "zeus_set_device rnd ZEUS_CLK_MIN ZEUS_CLK_MAX atoi info option setting =
     (if strcasecmp_eq option ''help'' then Some (Some (ReplyHelp ZEUS_CLK_MIN ZEUS_CLK_MAX), info, 0)
      else if strcasecmp_eq option ''freq'' then
        (case setting of
           None \<Rightarrow> Some (Some ReplyMissingFreq, info, 0)
         | Some s \<Rightarrow>
             if s = [] then Some (Some ReplyMissingFreq, info, 0)
             else
               (let val = atoi s in
                if val < ZEUS_CLK_MIN \<or> val > ZEUS_CLK_MAX
                then Some (Some (ReplyInvalidFreq s ZEUS_CLK_MIN ZEUS_CLK_MAX), info, 0)
                else
                  (case zeus_clk_to_freqcode rnd ZEUS_CLK_MIN ZEUS_CLK_MAX val of
                     None \<Rightarrow> None
                   | Some (code, warnings) \<Rightarrow>
                       Some (None, info\<lparr>next_chip_clk := val, freqcode := code\<rparr>, 0))))
      else if strcasecmp_eq option ''abortwork'' then
        (case setting of
           None \<Rightarrow> Some (Some ReplyMissingTrueFalse, info, 0)
         | Some s \<Rightarrow>
             if s = [] then Some (Some ReplyMissingTrueFalse, info, 0)
             else if \<not> strcasecmp_eq s ''true'' then Some (Some ReplyNotAborting, info, 0)
             else Some (None, zeus_purge_work info, 1))
      else Some (Some (ReplyUnknownOption option), info, 0))"

section \<open>Notions of the specification\<close>

text \<open>
  The bit-reversal of the low \<open>n\<close> bits of a word, as the specification words it: bit
  \<open>k\<close> of the result is bit \<open>n - 1 - k\<close> of the argument, for \<open>k < n\<close>.
\<close>

definition reverse_bits :: "nat \<Rightarrow> u32 \<Rightarrow> u32" where
  "reverse_bits n x = horner_sum of_bool 2 (rev (map (bit x) [0..<n]))"

text \<open>The 10-bit field of a nonce at bit positions 19..28, and its top \<open>B\<close> bits.\<close>

definition chip_field :: "u32 \<Rightarrow> u32" where
  "chip_field nonce = drop_bit 19 nonce AND 0x3FF"

definition top_bits :: "nat \<Rightarrow> u32 \<Rightarrow> u32" where
  "top_bits B field = drop_bit (10 - B) field"

text \<open>The big-endian value of four bytes.\<close>

definition be_value :: "event_pkt \<Rightarrow> u32" where
  "be_value pkt = (case pkt of (b0, b1, b2, b3) \<Rightarrow>
     word_of_nat (unat b0 * 2 ^ 24 + unat b1 * 2 ^ 16 + unat b2 * 2 ^ 8 + unat b3))"

text \<open>The frequency code of the specification: \<open>floor(K * 2 / 3) mod 256\<close>.\<close>

definition freqcode_spec :: "int \<Rightarrow> u8" where
  "freqcode_spec K = word_of_int ((K * 2 div 3) mod 256)"


section \<open>Concrete inputs\<close>

text \<open>
  A detection of six chips at 328 MHz on a little-endian host, in exact arithmetic:
  the device answers the golden work after 50 ms with the bytes \<open>00 03 8d 26\<close>. The
  clock range 2..382 stands for the missing constants.
\<close>

definition sample_options :: detect_options where
  "sample_options = \<lparr> opt_zeus_chips_count = 6, opt_zeus_chip_clk = 328,
                       opt_zeus_nocheck_golden = False \<rparr>"

definition sample_env :: detect_env where
  "sample_env = \<lparr> open_fd = 3, nonce_bin = (0x00, 0x03, 0x8d, 0x26), golden_tdiff = 1 / 20,
                   calloc_ok = True, add_cgpu_ok = True \<rparr>"

definition detected_board :: ZEUS_INFO where
  "detected_board = \<lparr>
     device_fd = - 1,
     cores_per_chip = 8,
     chips_count = 6,
     chips_count_max = 8,
     chips_bit_num = 3,
     chip_clk = 328,
     next_chip_clk = - 1,
     freqcode = 218,
     golden_speed_per_core = 67320,
     read_count = 3738,
     work_timeout = \<lparr> tv_sec = 1329, tv_usec = 151594 \<rparr>,
     workstart = \<lparr> tv_sec = 0, tv_usec = 0 \<rparr>,
     scanwork_time = \<lparr> tv_sec = 0, tv_usec = 0 \<rparr>,
     current_work = None,
     workdone = 0,
     nonce_count = (\<lambda>chip core. 0),
     error_count = (\<lambda>chip core. 0) \<rparr>"

text \<open>A work of difficulty 2.5, and the board with the port open and that work in its slot.\<close>

definition sample_work :: work where
  "sample_work = \<lparr> data = map of_nat [0..<128], work_difficulty = 5 / 2, devflag = False \<rparr>"

definition sample_board :: ZEUS_INFO where
  "sample_board = detected_board\<lparr>device_fd := 3, current_work := Some sample_work\<rparr>"

text \<open>The board that a detection registered, if it registered one.\<close>

definition detected :: "(detect_result \<times> int \<times> log_msg list) option \<Rightarrow> ZEUS_INFO option" where
  "detected r = (case r of Some (Detected info, m, logs) \<Rightarrow> Some info | _ \<Rightarrow> None)"

text \<open>
  A reading of decimal digit strings, on which it agrees with the C library's \<open>atoi\<close>,
  and the difference of two times in seconds, in exact arithmetic.
\<close>

definition atoi_digits :: "string \<Rightarrow> int" where
  "atoi_digits s = foldl (\<lambda>n c. 10 * n + (int (of_char c) - 48)) 0
                     (takeWhile (\<lambda>c. 48 \<le> (of_char c :: nat) \<and> (of_char c :: nat) \<le> 57) s)"


text \<open>
  Rounding to the nearest number of 53 significant bits, ties to the even significand:
  the rounding of IEEE-754 binary64 on the reals of its normal range (the exponent is
  not bounded here, so there is neither overflow nor a subnormal number). With it, the
  difference of two times as a host computes it in double precision: the difference of
  the seconds plus the difference of the microseconds divided by \<open>1000000.0\<close>.
\<close>

definition round_half_even :: "real \<Rightarrow> int" where
  "round_half_even y =
     (let f = floor y
      in if y - real_of_int f < 1 / 2 then f
         else if 1 / 2 < y - real_of_int f then f + 1
         else if even f then f else f + 1)"



section \<open>The utility functions\<close>

subsection \<open>The byte reversal\<close>

lemma rev_loop_length: "length (rev_loop s i j) = length s"
proof (induction s i j rule: rev_loop.induct)
  case (1 s i j)
  show ?case
  proof (cases "i < j")
    case True
    with 1 show ?thesis by (subst rev_loop.simps) simp
  next
    case False
    then show ?thesis by (subst rev_loop.simps) simp
  qed
qed

lemma rev_loop_nth:
  "j < length s \<Longrightarrow> k < length s \<Longrightarrow>
   rev_loop s i j ! k = (if i \<le> k \<and> k \<le> j then s ! (i + j - k) else s ! k)"
proof (induction s i j rule: rev_loop.induct)
  case (1 s i j)
  show ?case
  proof (cases "i < j")
    case True
    let ?s = "s[i := s ! j, j := s ! i]"
    have "rev_loop s i j ! k = rev_loop ?s (i + 1) (j - 1) ! k"
      using True by (subst rev_loop.simps) simp
    also have "\<dots> = (if i + 1 \<le> k \<and> k \<le> j - 1 then ?s ! (i + 1 + (j - 1) - k) else ?s ! k)"
      using True "1.prems" by (intro "1.IH") simp_all
    also have "\<dots> = (if i \<le> k \<and> k \<le> j then s ! (i + j - k) else s ! k)"
      using True "1.prems" by (auto simp add: nth_list_update)
    finally show ?thesis .
  next
    case False
    then have "rev_loop s i j = s" by (subst rev_loop.simps) simp
    moreover have "i + j - k = k" if "i \<le> k \<and> k \<le> j"
      using False that by arith
    ultimately show ?thesis by auto
  qed
qed

lemma rev_c_rev:
  assumes "s \<noteq> []"
  shows "rev_c s (length s) = Some (rev s)"
proof -
  have "rev_loop s 0 (length s - 1) = rev s"
  proof (rule nth_equalityI)
    show "length (rev_loop s 0 (length s - 1)) = length (rev s)"
      by (simp add: rev_loop_length)
  next
    fix k assume "k < length (rev_loop s 0 (length s - 1))"
    then have k: "k < length s" by (simp add: rev_loop_length)
    have "length s - 1 < length s" using assms by simp
    then have "rev_loop s 0 (length s - 1) ! k = s ! (0 + (length s - 1) - k)"
      using k by (subst rev_loop_nth) auto
    also have "\<dots> = rev s ! k"
      using k by (simp add: rev_nth)
    finally show "rev_loop s 0 (length s - 1) ! k = rev s ! k" .
  qed
  with assms show ?thesis by (simp add: rev_c_def)
qed

subsection \<open>The chip index\<close>

lemma reverse_bits_Suc:
  "reverse_bits (Suc n) x = reverse_bits n (drop_bit 1 x) + push_bit n (x AND 1)"
proof -
  have "[0..<Suc n] = 0 # map Suc [0..<n]"
    by (simp add: upt_conv_Cons map_Suc_upt del: upt_Suc)
  then have "map (bit x) [0..<Suc n] = bit x 0 # map (bit (drop_bit 1 x)) [0..<n]"
    by (simp add: bit_drop_bit_eq comp_def del: upt_Suc)
  then show ?thesis
    by (simp add: reverse_bits_def horner_sum_append push_bit_eq_mult and_one_eq mod_2_eq_odd bit_0 del: upt_Suc)
qed

text \<open>The loop shifts the accumulator left by the bits it appends, reversed.\<close>

lemma chip_index_loop_reverse:
  "chip_index_loop n v acc = push_bit n acc + reverse_bits n v"
proof (induction n arbitrary: v acc)
  case 0
  show ?case by (simp add: reverse_bits_def)
next
  case (Suc n)
  show ?case
    by (simp add: Suc.IH reverse_bits_Suc push_bit_add push_bit_eq_mult algebra_simps)
qed

text \<open>\<open>reverse_bits\<close> is the bit reversal: bit \<open>k\<close> of the result is bit \<open>n - 1 - k\<close>.\<close>

lemma bit_reverse_bits:
  "bit (reverse_bits n x) k \<longleftrightarrow> k < n \<and> k < 32 \<and> bit x (n - 1 - k)"
  by (auto simp add: reverse_bits_def bit_horner_sum_bit_iff rev_nth)

lemma chip_shift_eq:
  assumes "B \<le> 10"
  shows "drop_bit (29 - B) (v AND 0x1ff80000) = top_bits B (chip_field (v::u32))"
proof -
  have c1: "(0x1ff80000 :: u32) = push_bit 19 (mask 10)"
    by (simp add: mask_eq_exp_minus_1 push_bit_eq_mult)
  have c2: "(0x3FF :: u32) = mask 10"
    by (simp add: mask_eq_exp_minus_1)
  show ?thesis
    unfolding top_bits_def chip_field_def c1 c2
    using assms
    by (intro bit_eqI) (auto simp add: bit_simps)
qed

text \<open>
  Claim C2. For every 32-bit nonce \<open>N\<close> and every \<open>bit_num\<close> \<open>B\<close> with \<open>0 \<le> B \<le> 10\<close>,
  \<open>chip_index N B\<close> is the \<open>B\<close>-bit bit-reversal of the top \<open>B\<close> bits of the 10-bit field
  of \<open>N\<close> at bit positions 19..28, that is of \<open>(N >> 19) & 0x3FF\<close>.
\<close>

theorem chip_index_bit_reversal:
  assumes "0 \<le> B" and "B \<le> 10"
  shows "chip_index N B = Some (reverse_bits (nat B) (top_bits (nat B) (chip_field N)))"
proof -
  have n: "nat (29 - B) = 29 - nat B" "nat B \<le> 10"
    using assms by simp_all
  have defined: "\<not> (29 - B < 0 \<or> 32 \<le> 29 - B)"
    using assms by simp
  have "chip_index N B =
      Some (chip_index_loop (nat B) (drop_bit (29 - nat B) (N AND 0x1ff80000)) 0)"
    unfolding chip_index_def n(1) [symmetric] using defined by (simp only: if_False)
  also have "drop_bit (29 - nat B) (N AND 0x1ff80000) = top_bits (nat B) (chip_field N)"
    using n(2) by (rule chip_shift_eq)
  finally show ?thesis
    by (simp only: chip_index_loop_reverse push_bit_of_0 add_0_left)
qed

text \<open>
  At the nonce \<open>0x10000000\<close> (field \<open>1000000000\<close>) and three bits: the top three bits
  \<open>100\<close> reversed are \<open>001\<close>.
\<close>

theorem chip_index_bit_reversal_witness:
  "(0::int) \<le> 3 \<and> (3::int) \<le> 10 \<and> chip_index 0x10000000 3 = Some 1"
  using chip_index_bit_reversal [of 3 "0x10000000"]
  by (simp add: reverse_bits_def top_bits_def chip_field_def upt_rec)

section \<open>The command packet\<close>

lemma diff_code_bytes:
  fixes dc :: u32
  assumes "dc \<le> 0xffff"
  shows "256 * uint (ucast (drop_bit 8 (dc AND 0xff00)) :: u8) + uint (ucast (dc AND 0x00ff) :: u8) = uint dc"
proof -
  have m1: "(0xff00 :: u32) = push_bit 8 (mask 8)" by (simp add: mask_eq_exp_minus_1 push_bit_eq_mult)
  have m2: "(0xff :: u32) = mask 8" by (simp add: mask_eq_exp_minus_1)
  have lt: "uint dc < 65536" using assms by (simp add: word_le_def)
  have hi: "(ucast (drop_bit 8 (dc AND 0xff00)) :: u8) = ucast (drop_bit 8 dc)"
    unfolding m1 by (intro bit_eqI) (auto simp add: bit_simps)
  have lo: "(ucast (dc AND 0xff) :: u8) = ucast dc"
    unfolding m2 by (intro bit_eqI) (auto simp add: bit_simps)
  have "uint (ucast (drop_bit 8 dc) :: u8) = (uint dc div 256) mod 256"
    by (simp add: unsigned_ucast_eq uint_div take_bit_eq_mod drop_bit_eq_div)
  moreover have "uint (ucast dc :: u8) = uint dc mod 256"
    by (simp add: unsigned_ucast_eq take_bit_eq_mod)
  moreover have "uint dc div 256 mod 256 = uint dc div 256"
    using lt by (intro mod_pos_pos_trivial) (simp_all add: pos_imp_zdiv_nonneg_iff)
  ultimately show ?thesis
    unfolding hi lo by simp
qed

lemma c_trunc_difficulty:
  assumes "- 1 < d" and "d < 2 ^ 32"
  shows "0 \<le> c_trunc d" and "c_trunc d < 2 ^ 32" and "max 1 (c_trunc d) = max 1 (floor d)"
proof -
  show "0 \<le> c_trunc d"
    using assms by (auto simp add: c_trunc_def; linarith)
  show "c_trunc d < 2 ^ 32"
    using assms by (auto simp add: c_trunc_def floor_less_iff; linarith)
  show "max 1 (c_trunc d) = max 1 (floor d)"
    using assms by (auto simp add: c_trunc_def; linarith)
qed

lemma send_work_diff:
  assumes "- 1 < d" and "d < 2 ^ 32"
  shows "\<exists>diff0. double_to_u32 d = Some diff0 \<and>
           uint (if diff0 < 1 then 1 else diff0) = max 1 (floor d)"
proof -
  note t = c_trunc_difficulty [OF assms]
  have u: "uint (word_of_int (c_trunc d) :: u32) = c_trunc d"
    using t(1,2) by (simp add: uint_word_of_int_eq take_bit_int_eq_self)
  have "uint (if (word_of_int (c_trunc d) :: u32) < 1 then 1 else (word_of_int (c_trunc d) :: u32)) = max 1 (c_trunc d)"
    using u by (auto simp add: word_less_def max_def)
  then show ?thesis
    using t by (simp add: double_to_u32_def)
qed

lemma diff_code_value:
  fixes df :: u32
  assumes "1 \<le> uint df"
  shows "0xffff div df \<le> (0xffff :: u32)" and "uint (0xffff div df) = 65535 div uint df"
proof -
  show v: "uint (0xffff div df) = 65535 div uint df"
    by (simp add: uint_div)
  have "65535 div uint df \<le> 65535"
    using assms zdiv_mono2 [of 65535 1 "uint df"] by simp
  then show "0xffff div df \<le> (0xffff :: u32)"
    using v by (simp add: word_le_def)
qed

lemma zeus_send_work_result:
  assumes "80 \<le> length (data work)"
    and "- 1 < work_difficulty work" and "work_difficulty work < 2 ^ 32"
  shows "\<exists>hi lo.
     zeus_send_work ret info work =
       Some (0 \<le> ret, (if ret < 0 then (zeus_purge_work info)\<lparr>device_fd := - 1\<rparr> else info),
             [freqcode info, NOT (freqcode info), hi, lo] @ rev (take 80 (data work))) \<and>
     256 * uint hi + uint lo = 65535 div max 1 (floor (work_difficulty work))"
proof -
  obtain diff0 where d0: "double_to_u32 (work_difficulty work) = Some diff0"
    and df: "uint (if diff0 < 1 then 1 else diff0) = max 1 (floor (work_difficulty work))"
    using send_work_diff [OF assms(2,3)] by blast
  define df where "df = (if diff0 < 1 then 1 else diff0)"
  define dc where "dc = 0xffff div df"
  have "1 \<le> uint df" using df by (simp add: df_def)
  note dcv = diff_code_value [OF this]
  have bytes: "256 * uint (ucast (drop_bit 8 (dc AND 0xff00)) :: u8) + uint (ucast (dc AND 0x00ff) :: u8)
                 = 65535 div max 1 (floor (work_difficulty work))"
    using diff_code_bytes [of dc] dcv df by (simp add: dc_def df_def)
  have len: "length (take 80 (data work)) = 80" using assms(1) by simp
  then have "take 80 (data work) \<noteq> []" by auto
  from rev_c_rev [OF this] have payload: "rev_c (take 80 (data work)) 80 = Some (rev (take 80 (data work)))"
    using len by simp
  have "zeus_send_work ret info work =
      Some (0 \<le> ret, (if ret < 0 then (zeus_purge_work info)\<lparr>device_fd := - 1\<rparr> else info),
        [freqcode info, NOT (freqcode info), ucast (drop_bit 8 (dc AND 0xff00)), ucast (dc AND 0x00ff)]
          @ rev (take 80 (data work)))"
    using assms(1) by (simp add: zeus_send_work_def d0 payload dc_def df_def Let_def)
  with bytes show ?thesis
    by blast
qed

text \<open>
  Claim C1. For every work whose 80-byte payload is \<open>P\<close> (the first 80 bytes of its
  \<open>data\<close>) and whose difficulty is \<open>d\<close>, \<open>zeus_send_work\<close> hands exactly one packet to
  \<open>zeus_write\<close>; it is 84 bytes long, byte 0 is the board's \<open>freqcode\<close>, byte 1 its
  bitwise complement, bytes 2-3 are the big-endian 16-bit value
  \<open>0xFFFF / max(1, floor(d))\<close> and bytes 4-83 are \<open>P\<close> reversed. The difficulty is one
  that the conversion to \<open>uint32_t\<close> defines (\<open>-1 < d < 2^32\<close>; the host keeps it at or
  below the driver's \<open>max_diff = 32768\<close>).
\<close>

theorem zeus_send_work_packet:
  assumes "80 \<le> length (data work)"
    and "- 1 < work_difficulty work" and "work_difficulty work < 2 ^ 32"
  shows "\<exists>info' hi lo.
     zeus_send_work ret info work =
       Some (0 \<le> ret, info', [freqcode info, NOT (freqcode info), hi, lo] @ rev (take 80 (data work))) \<and>
     256 * uint hi + uint lo = 65535 div max 1 (floor (work_difficulty work)) \<and>
     length ([freqcode info, NOT (freqcode info), hi, lo] @ rev (take 80 (data work))) = ZEUS_COMMAND_PKT_LEN"
proof -
  from zeus_send_work_result [OF assms, of ret info] obtain hi lo where
    "zeus_send_work ret info work =
       Some (0 \<le> ret, (if ret < 0 then (zeus_purge_work info)\<lparr>device_fd := - 1\<rparr> else info),
             [freqcode info, NOT (freqcode info), hi, lo] @ rev (take 80 (data work)))"
    "256 * uint hi + uint lo = 65535 div max 1 (floor (work_difficulty work))"
    by blast
  moreover have "length (take 80 (data work)) = 80" using assms(1) by simp
  ultimately show ?thesis
    by (auto simp add: ZEUS_COMMAND_PKT_LEN_def)
qed

theorem zeus_send_work_packet_witness:
  "80 \<le> length (data sample_work) \<and> - 1 < work_difficulty sample_work \<and>
   work_difficulty sample_work < 2 ^ 32 \<and>
   (\<exists>info' hi lo.
     zeus_send_work 84 sample_board sample_work =
       Some (0 \<le> (84::int), info', [freqcode sample_board, NOT (freqcode sample_board), hi, lo] @ rev (take 80 (data sample_work))) \<and>
     256 * uint hi + uint lo = 65535 div max 1 (floor (work_difficulty sample_work)) \<and>
     length ([freqcode sample_board, NOT (freqcode sample_board), hi, lo] @ rev (take 80 (data sample_work))) = ZEUS_COMMAND_PKT_LEN)"
  using zeus_send_work_packet [of sample_work 84 sample_board]
  by (simp add: sample_work_def)

section \<open>The event packet\<close>

lemma nonce_core_less: "unat (nonce_core nonce) < 8"
proof -
  have "unat (nonce AND 0xe0000000) < 2 ^ 32"
    using unsigned_less [of "nonce AND 0xe0000000", where ?'a = nat] by simp
  moreover have "unat (nonce_core nonce) = unat (nonce AND 0xe0000000) div 2 ^ 29"
    by (simp add: nonce_core_def drop_bit_eq_div unat_div)
  ultimately show ?thesis by simp
qed

text \<open>
  Claim C10. In \<open>zeus_read_response\<close> the core index is the top 3 bits of the decoded
  nonce, \<open>(nonce & 0xe0000000) >> 29\<close>, so it is below \<open>8 = ZEUS_CHIP_CORES\<close> for every
  nonce; the corrupt-nonce branch is reached exactly when a response was read for a
  current work and the chip index is at or above \<open>ZEUS_MAX_CHIPS\<close>, never through the
  bound on the core.
\<close>

theorem corrupt_nonce_only_by_chip:
  assumes "zeus_read_response e ZEUS_MAX_CHIPS ret evtpkt valid info = Some (ok, info', logs)"
  shows "unat (nonce_core nonce) < ZEUS_CHIP_CORES \<and>
         (CorruptNonce \<in> set logs \<longleftrightarrow>
            0 < ret \<and> current_work info \<noteq> None \<and>
            (\<exists>chip. chip_index (be32toh e (memcpy_u32 e evtpkt)) (chips_bit_num info) = Some chip \<and>
                    ZEUS_MAX_CHIPS \<le> unat chip))"
proof
  show "unat (nonce_core nonce) < ZEUS_CHIP_CORES"
    using nonce_core_less [of nonce] by (simp add: ZEUS_CHIP_CORES_def)
next
  let ?n = "be32toh e (memcpy_u32 e evtpkt)"
  have core: "unat (nonce_core ?n) < ZEUS_CHIP_CORES"
    using nonce_core_less [of ?n] by (simp add: ZEUS_CHIP_CORES_def)
  show "CorruptNonce \<in> set logs \<longleftrightarrow>
            0 < ret \<and> current_work info \<noteq> None \<and>
            (\<exists>chip. chip_index ?n (chips_bit_num info) = Some chip \<and> ZEUS_MAX_CHIPS \<le> unat chip)"
    using assms core
    by (auto simp add: zeus_read_response_def Let_def split: if_splits option.splits)
qed

theorem corrupt_nonce_only_by_chip_witness:
  "zeus_read_response LittleEndian 4 4 (0x1f, 0xf8, 0, 0) True sample_board
     = Some (True, sample_board\<lparr>workdone := 1\<rparr>, [CorruptNonce]) \<and>
   unat (nonce_core 0xffffffff) < ZEUS_CHIP_CORES \<and>
   CorruptNonce \<in> set [CorruptNonce] \<and>
   (\<exists>chip. chip_index (be32toh LittleEndian (memcpy_u32 LittleEndian (0x1f, 0xf8, 0, 0))) (chips_bit_num sample_board) = Some chip \<and>
                    4 \<le> unat chip)"
proof -
  have dec: "be32toh LittleEndian (memcpy_u32 LittleEndian (0x1f, 0xf8, 0, 0)) = 0x1ff80000"
    by code_simp
  have ci: "chip_index 0x1ff80000 3 = Some 7"
    by code_simp
  have co: "nonce_core 0x1ff80000 = 0"
    by code_simp
  have run: "zeus_read_response LittleEndian 4 4 (0x1f, 0xf8, 0, 0) True sample_board
     = Some (True, sample_board\<lparr>workdone := 1\<rparr>, [CorruptNonce])"
    by (simp add: zeus_read_response_def sample_board_def detected_board_def dec ci co)
  from corrupt_nonce_only_by_chip [OF run, of "0xffffffff"] run show ?thesis
    by simp
qed

section \<open>The sample detection, evaluated\<close>

lemma sample_freqcodes:
  "zeus_clk_to_freqcode (\<lambda>x. x) 2 382 328 = Some (218, [])"
  "zeus_clk_to_freqcode (\<lambda>x. x) 2 382 165 = Some (110, [])"
  "zeus_clk_to_freqcode (\<lambda>x. x) 2 382 1610612736 = Some (254, [ClockTooHigh 1610612736])"
  by (simp_all add: zeus_clk_to_freqcode_def double_to_u8_def c_trunc_def)

lemma sample_speeds:
  "golden_speed_measured (\<lambda>x. x) (1 / 20) = Some 67320"
  "golden_speed_nocheck (\<lambda>x. x) 1610612736 = Some 137438953472"
  by (simp_all add: golden_speed_measured_def golden_speed_nocheck_def double_to_u64_def c_trunc_def)

lemma sample_nonces:
  "golden_nonce_read LittleEndian (0x00, 0x03, 0x8d, 0x26) = 0x00038D26"
  "golden_nonce_read LittleEndian (0x00, 0x0D, 0x26, 0x68) = 0x000D2668"
  "golden_nonce_read BigEndian (0x00, 0x0D, 0x26, 0x68) = 0x000D2668"
  "golden_nonce_val LittleEndian = 0x00038D26"
  "golden_nonce_val BigEndian = 0x268D0300"
  by (simp_all add: golden_nonce_read_def golden_nonce_val_def be32toh_def memcpy_u32_def bswap32_def)

lemma sample_pow2:
  "lowest_pow2 6 = 8" "lowest_pow2 1025 = 1024" "lowest_pow2 16777217 = 1024"
  "log_2 8 = 3" "log_2 1024 = 10"
  by code_simp+

lemma sample_timeouts:
  "detect_work_timeout 67320 8 6 = Some \<lparr> tv_sec = 1329, tv_usec = 151594 \<rparr>"
  "detect_work_timeout 67320 8 1025 = Some \<lparr> tv_sec = 7, tv_usec = 780399 \<rparr>"
  "detect_work_timeout 137438953472 8 16777217 = Some \<lparr> tv_sec = 0, tv_usec = 3906 \<rparr>"
  "detect_read_count 67320 8 8 = Some 3738"
  "detect_read_count 67320 8 1024 = Some 28"
  "detect_read_count 137438953472 8 1024 = Some 0"
  by (simp_all add: detect_work_timeout_def detect_read_count_def)

lemma sample_detection:
  "zeus_detect_one (\<lambda>x. x) LittleEndian 2 382 sample_options sample_env 1
     = Some (Detected detected_board, 8, [])"
  by (simp add: zeus_detect_one_def detect_register_def sample_options_def sample_env_def
        detected_board_def sample_freqcodes sample_speeds sample_nonces sample_pow2
        sample_timeouts ZEUS_CHIP_CORES_def)

section \<open>Detection\<close>

subsection \<open>The golden nonce\<close>

lemma bswap32_or: "bswap32 (x OR y) = bswap32 x OR bswap32 y"
  by (simp add: bswap32_def bit.conj_disj_distrib2 ac_simps)

lemma byte_masks:
  "(0xff :: u32) = mask 8" "(0xff00 :: u32) = push_bit 8 (mask 8)"
  "(0xff0000 :: u32) = push_bit 16 (mask 8)" "(0xff000000 :: u32) = push_bit 24 (mask 8)"
  by (simp_all add: mask_eq_exp_minus_1 push_bit_eq_mult)

lemma bswap32_byte0: "bswap32 (ucast (b :: u8)) = push_bit 24 (ucast b)"
  unfolding bswap32_def byte_masks
  by (intro bit_eqI) (auto simp add: bit_simps dest: bit_imp_le_length)

lemma bswap32_byte1: "bswap32 (push_bit 8 (ucast (b :: u8))) = push_bit 16 (ucast b)"
  unfolding bswap32_def byte_masks
  by (intro bit_eqI) (auto simp add: bit_simps dest: bit_imp_le_length)

lemma bswap32_byte2: "bswap32 (push_bit 16 (ucast (b :: u8))) = push_bit 8 (ucast b)"
  unfolding bswap32_def byte_masks
  by (intro bit_eqI) (auto simp add: bit_simps dest: bit_imp_le_length)

lemma bswap32_byte3: "bswap32 (push_bit 24 (ucast (b :: u8))) = ucast b"
  unfolding bswap32_def byte_masks
  by (intro bit_eqI) (auto simp add: bit_simps dest: bit_imp_le_length)


lemma bswap_memcpy:
  "bswap32 (memcpy_u32 LittleEndian pkt) = memcpy_u32 BigEndian pkt"
  by (cases pkt)
    (simp add: memcpy_u32_def bswap32_or bswap32_byte0 bswap32_byte1 bswap32_byte2 bswap32_byte3 ac_simps)

lemma bytes_disjoint:
  fixes b0 b1 b2 b3 :: u8
  shows "push_bit 8 (ucast b2 :: u32) AND ucast b3 = 0"
    and "push_bit 16 (ucast b1 :: u32) AND (push_bit 8 (ucast b2) OR ucast b3) = 0"
    and "push_bit 24 (ucast b0 :: u32) AND (push_bit 16 (ucast b1) OR push_bit 8 (ucast b2) OR ucast b3) = 0"
  by (intro bit_eqI; auto simp add: bit_simps dest: bit_imp_le_length)+

lemma memcpy_be_value: "memcpy_u32 BigEndian pkt = be_value pkt"
proof -
  obtain b0 b1 b2 b3 where pkt: "pkt = (b0, b1, b2, b3)"
    by (cases pkt) auto
  have "push_bit 24 (ucast b0 :: u32) OR push_bit 16 (ucast b1) OR push_bit 8 (ucast b2) OR ucast b3
      = push_bit 24 (ucast b0) + (push_bit 16 (ucast b1) + (push_bit 8 (ucast b2) + ucast b3))"
    by (simp only: disjunctive_add_eq_or [OF bytes_disjoint(1)]
        disjunctive_add_eq_or [OF bytes_disjoint(2)] disjunctive_add_eq_or [OF bytes_disjoint(3)])
  also have "\<dots> = word_of_nat (unat b0 * 2 ^ 24 + unat b1 * 2 ^ 16 + unat b2 * 2 ^ 8 + unat b3)"
    by (simp add: push_bit_eq_mult)
  finally show ?thesis
    by (simp add: pkt memcpy_u32_def be_value_def)
qed

lemma golden_nonce_read_be: "golden_nonce_read e pkt = be_value pkt"
  by (cases e) (simp_all add: golden_nonce_read_def be32toh_def bswap_memcpy memcpy_be_value)

lemma golden_nonce_val_eq:
  "golden_nonce_val e = (case e of LittleEndian \<Rightarrow> 0x00038D26 | BigEndian \<Rightarrow> 0x268D0300)"
  by (cases e) (simp_all add: golden_nonce_val_def be32toh_def bswap32_def)

text \<open>
  Claim C3, amended. In the golden-nonce self-test (the port opened, the check not
  bypassed) the detector decodes the 4 received bytes as a big-endian 32-bit value and
  compares it to \<open>be32toh(0x268d0300)\<close>, which is \<open>0x00038D26\<close> on a little-endian host
  and \<open>0x268D0300\<close> on a big-endian one; detection fails exactly when the decoded value
  differs from that constant. (The claim names the constant \<open>0x000D2668\<close>.)
\<close>

theorem golden_test_outcome:
  assumes "zeus_detect_one rnd e ZEUS_CLK_MIN ZEUS_CLK_MAX opts env m = Some (r, m', logs)"
    and "open_fd env \<noteq> - 1" and "\<not> opt_zeus_nocheck_golden opts"
  shows "golden_nonce_read e (nonce_bin env) = be_value (nonce_bin env) \<and>
         golden_nonce_val e = (case e of LittleEndian \<Rightarrow> 0x00038D26 | BigEndian \<Rightarrow> 0x268D0300) \<and>
         (r = DetectFailed \<longleftrightarrow> be_value (nonce_bin env) \<noteq> golden_nonce_val e)"
proof -
  have "r = DetectFailed \<longleftrightarrow> golden_nonce_read e (nonce_bin env) \<noteq> golden_nonce_val e"
    using assms
    by (auto simp add: zeus_detect_one_def detect_register_def Let_def
          split: option.splits if_splits prod.splits)
  then show ?thesis
    by (simp add: golden_nonce_read_be golden_nonce_val_eq)
qed

text \<open>The sample detection passes the test with the bytes \<open>00 03 8d 26\<close>.\<close>

theorem golden_test_outcome_witness:
  "zeus_detect_one (\<lambda>x. x) LittleEndian 2 382 sample_options sample_env 1
     = Some (Detected detected_board, 8, []) \<and>
   open_fd sample_env \<noteq> - 1 \<and> \<not> opt_zeus_nocheck_golden sample_options \<and>
   golden_nonce_read LittleEndian (nonce_bin sample_env) = be_value (nonce_bin sample_env) \<and>
   golden_nonce_val LittleEndian = 0x00038D26 \<and>
   be_value (nonce_bin sample_env) = golden_nonce_val LittleEndian"
proof -
  have h: "open_fd sample_env \<noteq> - 1" "\<not> opt_zeus_nocheck_golden sample_options"
    by (simp_all add: sample_env_def sample_options_def)
  from golden_test_outcome [OF sample_detection h] sample_detection h show ?thesis
    by simp
qed

text \<open>
  The bytes \<open>00 0D 26 68\<close> decode to \<open>0x000D2668\<close>, and detection fails on a host of
  either byte order.
\<close>

theorem golden_constant_counterexample:
  "be_value (0x00, 0x0D, 0x26, 0x68) = 0x000D2668 \<and>
   zeus_detect_one (\<lambda>x. x) LittleEndian 2 382 sample_options
       (sample_env\<lparr>nonce_bin := (0x00, 0x0D, 0x26, 0x68)\<rparr>) 1
     = Some (DetectFailed, 8, [GoldenTestFailed 0x000D2668 0x00038D26]) \<and>
   zeus_detect_one (\<lambda>x. x) BigEndian 2 382 sample_options
       (sample_env\<lparr>nonce_bin := (0x00, 0x0D, 0x26, 0x68)\<rparr>) 1
     = Some (DetectFailed, 8, [GoldenTestFailed 0x000D2668 0x268D0300])"
  by (simp add: be_value_def zeus_detect_one_def sample_options_def sample_env_def
        sample_freqcodes sample_nonces sample_pow2)

subsection \<open>The chip count\<close>

lemma lowest_pow2_loop_pow2:
  "k \<le> 10 \<Longrightarrow>
   \<exists>j. k \<le> j \<and> j \<le> 10 \<and> lowest_pow2_loop m (2 ^ k) = 2 ^ j \<and>
       (m \<le> 1024 \<longrightarrow> m \<le> 2 ^ j) \<and> (1024 < m \<longrightarrow> j = 10)"
proof (induction "10 - k" arbitrary: k)
  case 0
  then have "k = 10" by simp
  then show ?case
    by (subst lowest_pow2_loop.simps) (auto intro!: exI [of _ 10])
next
  case (Suc n)
  then have k: "k < 10" by simp
  then have small: "(2::int) ^ k < 1024"
    using power_strict_increasing [of k 10 "2::int"] by simp
  show ?case
  proof (cases "m \<le> 2 ^ k")
    case True
    then have "lowest_pow2_loop m (2 ^ k) = 2 ^ k"
      using small by (subst lowest_pow2_loop.simps) simp
    with True small k show ?thesis
      by (intro exI [of _ k]) auto
  next
    case False
    then have step: "lowest_pow2_loop m (2 ^ k) = lowest_pow2_loop m (2 ^ Suc k)"
      using small by (subst lowest_pow2_loop.simps) (simp add: mult.commute)
    have "n = 10 - Suc k" and "Suc k \<le> 10"
      using Suc.hyps(2) k by simp_all
    from Suc.hyps(1) [OF this] obtain j where
      "Suc k \<le> j" "j \<le> 10" "lowest_pow2_loop m (2 ^ Suc k) = 2 ^ j"
      "m \<le> 1024 \<longrightarrow> m \<le> 2 ^ j" "1024 < m \<longrightarrow> j = 10"
      by blast
    with step show ?thesis
      by (intro exI [of _ j]) auto
  qed
qed

lemma lowest_pow2_props:
  "\<exists>j. j \<le> 10 \<and> lowest_pow2 m = 2 ^ j \<and> (m \<le> 1024 \<longrightarrow> m \<le> 2 ^ j) \<and> (1024 < m \<longrightarrow> j = 10)"
  using lowest_pow2_loop_pow2 [of 0 m] unfolding lowest_pow2_def by auto

lemma log_2_loop_pow2: "log_2_loop (2 ^ k) x = x + int k"
proof (induction k arbitrary: x)
  case 0
  show ?case by (subst log_2_loop.simps) simp
next
  case (Suc k)
  have "(1::int) < 2 ^ Suc k"
    using one_less_power [of "2::int" "Suc k"] by simp
  then have "log_2_loop (2 ^ Suc k) x = log_2_loop (2 ^ k) (x + 1)"
    by (subst log_2_loop.simps) simp
  then show ?case by (simp add: Suc.IH)
qed

lemma log_2_pow2: "log_2 (2 ^ k) = int k"
  by (simp add: log_2_def log_2_loop_pow2)

lemma detect_register_fields:
  assumes "detect_register opts env chips_max code g = Some (Detected info)"
  shows "chips_count info = opt_zeus_chips_count opts"
    and "chips_count_max info = chips_max"
    and "chips_bit_num info = log_2 chips_max"
    and "cores_per_chip info = 8"
    and "golden_speed_per_core info = g"
    and "detect_work_timeout g 8 (opt_zeus_chips_count opts) = Some (work_timeout info)"
  using assms
  by (auto simp add: detect_register_def Let_def ZEUS_CHIP_CORES_def
        split: option.splits if_splits)

lemma detected_registered:
  assumes "zeus_detect_one rnd e ZEUS_CLK_MIN ZEUS_CLK_MAX opts env m = Some (Detected info, m', logs)"
  shows "m' = (if opt_zeus_chips_count opts > m then lowest_pow2 (opt_zeus_chips_count opts) else m) \<and>
         (\<exists>code g. detect_register opts env m' code g = Some (Detected info))"
  using assms unfolding zeus_detect_one_def Let_def
  by (auto split: option.splits if_splits prod.splits)

lemma detected_fields:
  assumes "zeus_detect_one rnd e ZEUS_CLK_MIN ZEUS_CLK_MAX opts env m = Some (Detected info, m', logs)"
  shows "chips_count info = opt_zeus_chips_count opts"
    and "m' = (if opt_zeus_chips_count opts > m then lowest_pow2 (opt_zeus_chips_count opts) else m)"
    and "chips_count_max info = m'"
    and "chips_bit_num info = log_2 m'"
    and "cores_per_chip info = 8"
    and "detect_work_timeout (golden_speed_per_core info) 8 (chips_count info) = Some (work_timeout info)"
proof -
  from detected_registered [OF assms] obtain code g
    where m': "m' = (if opt_zeus_chips_count opts > m then lowest_pow2 (opt_zeus_chips_count opts) else m)"
      and reg: "detect_register opts env m' code g = Some (Detected info)"
    by blast
  note f = detect_register_fields [OF reg]
  show "chips_count info = opt_zeus_chips_count opts" by (rule f(1))
  show "m' = (if opt_zeus_chips_count opts > m then lowest_pow2 (opt_zeus_chips_count opts) else m)"
    by (rule m')
  show "chips_count_max info = m'" by (rule f(2))
  show "chips_bit_num info = log_2 m'" by (rule f(3))
  show "cores_per_chip info = 8" by (rule f(4))
  show "detect_work_timeout (golden_speed_per_core info) 8 (chips_count info) = Some (work_timeout info)"
    using f(6) by (simp add: f(1) f(5))
qed

text \<open>
  Claim C4, amended. For every positive declared chips-count \<open>C\<close>, a detection that
  starts from the initial \<open>opt_zeus_chips_count_max = 1\<close>, or from the value an earlier
  detection with the same \<open>C\<close> left, sets \<open>chips_count_max\<close> to \<open>lowest_pow2(C)\<close>;
  afterwards \<open>chips_count_max\<close> is a power of two and
  \<open>chips_bit_num = log2(chips_count_max)\<close>. \<open>C \<le> chips_count_max\<close> holds when
  \<open>C \<le> 1024\<close>; for larger \<open>C\<close> the value is capped at 1024.
\<close>

theorem detect_chips_count_max:
  assumes "zeus_detect_one rnd e ZEUS_CLK_MIN ZEUS_CLK_MAX opts env m = Some (Detected info, m', logs)"
    and "0 < opt_zeus_chips_count opts"
    and "m = 1 \<or> m = lowest_pow2 (opt_zeus_chips_count opts)"
  shows "chips_count_max info = lowest_pow2 (opt_zeus_chips_count opts) \<and>
         m' = lowest_pow2 (opt_zeus_chips_count opts) \<and>
         (\<exists>k. chips_count_max info = 2 ^ k) \<and>
         2 ^ nat (chips_bit_num info) = chips_count_max info \<and>
         (opt_zeus_chips_count opts \<le> 1024 \<longrightarrow> opt_zeus_chips_count opts \<le> chips_count_max info) \<and>
         (1024 < opt_zeus_chips_count opts \<longrightarrow> chips_count_max info = 1024)"
proof -
  let ?C = "opt_zeus_chips_count opts"
  note f = detected_fields [OF assms(1)]
  obtain j where j: "j \<le> 10" "lowest_pow2 ?C = 2 ^ j"
    "?C \<le> 1024 \<longrightarrow> ?C \<le> 2 ^ j" "1024 < ?C \<longrightarrow> j = 10"
    using lowest_pow2_props [of ?C] by blast
  have one: "lowest_pow2 ?C = 1" if "?C \<le> 1"
    using that unfolding lowest_pow2_def by (subst lowest_pow2_loop.simps) simp
  have m': "m' = lowest_pow2 ?C"
    using assms(3) one unfolding f(2) by auto
  show ?thesis
    using j f(3,4) by (auto simp add: m' log_2_pow2)
qed

theorem detect_chips_count_max_witness:
  "zeus_detect_one (\<lambda>x. x) LittleEndian 2 382 sample_options sample_env 1
     = Some (Detected detected_board, 8, []) \<and>
   0 < opt_zeus_chips_count sample_options \<and>
   lowest_pow2 (opt_zeus_chips_count sample_options) = 8 \<and>
   chips_count_max detected_board = 8 \<and>
   2 ^ nat (chips_bit_num detected_board) = chips_count_max detected_board \<and>
   opt_zeus_chips_count sample_options \<le> chips_count_max detected_board"
proof -
  have h: "0 < opt_zeus_chips_count sample_options" "(1::int) = 1 \<or> 1 = lowest_pow2 (opt_zeus_chips_count sample_options)"
    by (simp_all add: sample_options_def)
  have "opt_zeus_chips_count sample_options \<le> 1024"
    by (simp add: sample_options_def)
  with detect_chips_count_max [OF sample_detection h] sample_detection h(1) show ?thesis
    by (simp add: sample_options_def sample_pow2)
qed

text \<open>With 1025 declared chips the detector registers a board of at most 1024.\<close>

theorem chips_count_cap_counterexample:
  "map_option chips_count
     (detected (zeus_detect_one (\<lambda>x. x) LittleEndian 2 382
        (sample_options\<lparr>opt_zeus_chips_count := 1025\<rparr>) sample_env 1)) = Some 1025 \<and>
   map_option chips_count_max
     (detected (zeus_detect_one (\<lambda>x. x) LittleEndian 2 382
        (sample_options\<lparr>opt_zeus_chips_count := 1025\<rparr>) sample_env 1)) = Some 1024 \<and>
   \<not> (1025 :: int) \<le> 1024"
  by (simp add: detected_def zeus_detect_one_def detect_register_def sample_options_def sample_env_def
        sample_freqcodes sample_speeds sample_nonces sample_pow2 sample_timeouts ZEUS_CHIP_CORES_def)

subsection \<open>The work timeout\<close>

lemma detect_work_timeout_exact:
  assumes "0 < C" and "1 \<le> uint g" and "uint g * 8 * C < 2 ^ 64"
  shows "detect_work_timeout g 8 C =
           Some \<lparr> tv_sec = 2 ^ 32 div (uint g * 8 * C),
                  tv_usec = (2 ^ 32 * 10 ^ 6 div (uint g * 8 * C)) mod 10 ^ 6 \<rparr>"
proof -
  define p :: u64 where "p = g * word_of_int 8 * word_of_int C"
  have pos: "0 < uint g * 8 * C"
    using assms by simp
  have "p = word_of_int (uint g * 8 * C)"
    by (simp add: p_def)
  then have "uint p = take_bit 64 (uint g * 8 * C)"
    by (simp only: uint_word_of_int_eq) simp
  then have up: "uint p = uint g * 8 * C"
    using pos assms(3) by (simp only: take_bit_int_eq_self_iff) simp
  have "p \<noteq> 0"
    using up pos by auto
  moreover have "uint (4294967296 div p) = 2 ^ 32 div (uint g * 8 * C)"
    by (simp add: uint_div up)
  moreover have "uint (((4294967296 * 1000000) div p) mod 1000000) = (2 ^ 32 * 10 ^ 6 div (uint g * 8 * C)) mod 10 ^ 6"
    by (simp add: uint_div uint_mod up)
  ultimately show ?thesis
    unfolding detect_work_timeout_def p_def [symmetric] by (simp add: Let_def)
qed

lemma micros_split:
  fixes P :: int
  assumes "0 < P"
  shows "(2 ^ 32 div P) * 10 ^ 6 + (2 ^ 32 * 10 ^ 6 div P) mod 10 ^ 6 = 2 ^ 32 * 10 ^ 6 div P"
proof -
  have "(2 ^ 32 * 10 ^ 6 div P) div 10 ^ 6 = 2 ^ 32 * 10 ^ 6 div (P * 10 ^ 6)"
    using assms by (simp add: zdiv_zmult2_eq)
  also have "\<dots> = 2 ^ 32 div P"
    by simp
  finally have "(2 ^ 32 * 10 ^ 6 div P) div 10 ^ 6 = 2 ^ 32 div P" .
  then show ?thesis
    using div_mult_mod_eq [of "2 ^ 32 * 10 ^ 6 div P" "10 ^ 6"] by simp
qed

text \<open>
  Claim C5, amended. After detection with \<open>golden_speed_per_core\<close> \<open>g \<ge> 1\<close>,
  \<open>cores_per_chip = 8\<close> and a positive declared chips-count \<open>C\<close> such that the product
  \<open>g * 8 * C\<close> does not wrap around in 64 bits, \<open>work_timeout\<close> is the duration
  \<open>2^32 / (g * 8 * C)\<close> seconds truncated to whole microseconds:
  \<open>tv_sec = floor(2^32 / (g * 8 * C))\<close> and
  \<open>tv_usec = floor(2^32 * 10^6 / (g * 8 * C)) mod 10^6\<close>.
\<close>

theorem detect_work_timeout_duration:
  assumes "zeus_detect_one rnd e ZEUS_CLK_MIN ZEUS_CLK_MAX opts env m = Some (Detected info, m', logs)"
    and "0 < chips_count info"
    and "1 \<le> uint (golden_speed_per_core info)"
    and "uint (golden_speed_per_core info) * 8 * chips_count info < 2 ^ 64"
  shows "cores_per_chip info = 8 \<and>
         tv_sec (work_timeout info) = 2 ^ 32 div (uint (golden_speed_per_core info) * 8 * chips_count info) \<and>
         tv_usec (work_timeout info) =
           (2 ^ 32 * 10 ^ 6 div (uint (golden_speed_per_core info) * 8 * chips_count info)) mod 10 ^ 6 \<and>
         tv_sec (work_timeout info) * 10 ^ 6 + tv_usec (work_timeout info) =
           2 ^ 32 * 10 ^ 6 div (uint (golden_speed_per_core info) * 8 * chips_count info)"
proof -
  let ?P = "uint (golden_speed_per_core info) * 8 * chips_count info"
  note f = detected_fields [OF assms(1)]
  have t: "work_timeout info = \<lparr> tv_sec = 2 ^ 32 div ?P, tv_usec = (2 ^ 32 * 10 ^ 6 div ?P) mod 10 ^ 6 \<rparr>"
    using f(6) detect_work_timeout_exact [OF assms(2,3,4)] by simp
  have "0 < ?P" using assms by simp
  from micros_split [OF this] show ?thesis
    by (simp add: t f(5))
qed

theorem detect_work_timeout_duration_witness:
  "zeus_detect_one (\<lambda>x. x) LittleEndian 2 382 sample_options sample_env 1
     = Some (Detected detected_board, 8, []) \<and>
   0 < chips_count detected_board \<and>
   1 \<le> uint (golden_speed_per_core detected_board) \<and>
   uint (golden_speed_per_core detected_board) * 8 * chips_count detected_board < 2 ^ 64 \<and>
   cores_per_chip detected_board = 8 \<and>
   work_timeout detected_board = \<lparr> tv_sec = 2 ^ 32 div (67320 * 8 * 6),
                                     tv_usec = (2 ^ 32 * 10 ^ 6 div (67320 * 8 * 6)) mod 10 ^ 6 \<rparr>"
proof -
  have h: "0 < chips_count detected_board" "1 \<le> uint (golden_speed_per_core detected_board)"
    "uint (golden_speed_per_core detected_board) * 8 * chips_count detected_board < 2 ^ 64"
    by (simp_all add: detected_board_def)
  from detect_work_timeout_duration [OF sample_detection h] sample_detection h show ?thesis
    by (simp add: detected_board_def)
qed

text \<open>
  With the golden check bypassed, a clock of 1610612736 MHz gives the speed \<open>2^37\<close>
  (every intermediate double is an integer, so exact); with 16777217 chips the product
  \<open>2^37 * 8 * (2^24 + 1)\<close> wraps to \<open>2^40\<close> and the timeout is 3906 microseconds, where
  the duration \<open>2^32 / (g * 8 * C)\<close> has none.
\<close>

theorem work_timeout_wrap_counterexample:
  "map_option golden_speed_per_core
     (detected (zeus_detect_one (\<lambda>x. x) LittleEndian 2 382
        \<lparr> opt_zeus_chips_count = 16777217, opt_zeus_chip_clk = 1610612736,
          opt_zeus_nocheck_golden = True \<rparr> sample_env 1)) = Some 137438953472 \<and>
   map_option work_timeout
     (detected (zeus_detect_one (\<lambda>x. x) LittleEndian 2 382
        \<lparr> opt_zeus_chips_count = 16777217, opt_zeus_chip_clk = 1610612736,
          opt_zeus_nocheck_golden = True \<rparr> sample_env 1)) = Some \<lparr> tv_sec = 0, tv_usec = 3906 \<rparr> \<and>
   (2 ^ 32 * 10 ^ 6 div (137438953472 * 8 * 16777217)) mod 10 ^ 6 = (0 :: int)"
  by (simp add: detected_def zeus_detect_one_def detect_register_def sample_env_def
        sample_freqcodes sample_speeds sample_pow2 sample_timeouts ZEUS_CHIP_CORES_def)

subsection \<open>The frequency code\<close>

lemma freq_quotient:
  assumes r: "ieee_rounding rnd" and K: "0 \<le> K" "K < 2 ^ 31"
  shows "c_trunc (rnd (rnd (real_of_int K * 2) / 3)) = K * 2 div 3"
proof -
  from r have exact: "\<And>n::int. \<bar>n\<bar> \<le> 2 ^ 53 \<Longrightarrow> rnd (of_int n) = of_int n"
    and close: "\<And>x::real. 1 / 2 \<le> \<bar>x\<bar> \<Longrightarrow> \<bar>x\<bar> \<le> 2 ^ 53 \<Longrightarrow> \<bar>rnd x - x\<bar> \<le> \<bar>x\<bar> / 2 ^ 53"
    unfolding ieee_rounding_def by blast+
  define q where "q = K * 2 div 3"
  define m where "m = K * 2 mod 3"
  have q0: "0 \<le> q" and q1: "q < 2 ^ 32"
    using K by (simp_all add: q_def pos_imp_zdiv_nonneg_iff)
  have m: "0 \<le> m" "m < 3" by (simp_all add: m_def)
  have K2: "K * 2 = 3 * q + m"
    by (simp add: q_def m_def)
  have "rnd (real_of_int K * 2) = rnd (of_int (K * 2))" by simp
  also have "\<dots> = of_int (K * 2)"
    using K by (intro exact) simp
  finally have first: "rnd (real_of_int K * 2) = of_int (K * 2)" .
  define x :: real where "x = of_int (K * 2) / 3"
  have x: "x = of_int q + of_int m / 3"
    unfolding x_def K2 by simp
  have arg: "rnd (real_of_int K * 2) / 3 = x"
    by (simp only: first x_def)
  show ?thesis
  proof (cases "m = 0")
    case True
    then have "rnd x = of_int q"
      using q0 q1 by (simp add: x) (intro exact, simp)
    then show ?thesis
      unfolding arg using q0 by (simp add: c_trunc_def q_def)
  next
    case False
    then have m1: "1 \<le> m" using m by simp
    then have lo: "of_int q + 1 / 3 \<le> x" and hi: "x \<le> of_int q + 2 / 3"
      using m by (simp_all add: x)
    have "1 \<le> K" using K2 m1 m q0 K by linarith
    then have xh: "1 / 2 \<le> x" by (simp add: x_def)
    have xb: "x \<le> 2 ^ 32" using K by (simp add: x_def)
    have "\<bar>rnd x - x\<bar> \<le> \<bar>x\<bar> / 2 ^ 53"
      using xh xb by (intro close) simp_all
    moreover have "\<bar>x\<bar> / 2 ^ 53 < 1 / 3"
      using xh xb by simp
    ultimately have d: "\<bar>rnd x - x\<bar> < 1 / 3" by linarith
    have "of_int q < rnd x" and "rnd x < of_int q + 1"
      using d lo hi by linarith+
    then have "floor (rnd x) = q" and "0 \<le> rnd x"
      using q0 by (simp_all add: floor_unique)
    then show ?thesis
      unfolding arg by (simp add: c_trunc_def q_def)
  qed
qed

lemma freqcode_in_range:
  assumes r: "ieee_rounding rnd" and K: "0 \<le> K" "K * 2 div 3 < 256"
  shows "double_to_u8 (rnd (rnd (real_of_int K * 2) / 3)) = Some (freqcode_spec K)"
proof -
  have "K < 2 ^ 31" using K by simp
  from freq_quotient [OF r K(1) this] K show ?thesis
    by (simp add: double_to_u8_def freqcode_spec_def pos_imp_zdiv_nonneg_iff)
qed

text \<open>
  Claim C6. \<open>zeus_clk_to_freqcode\<close> first clamps its argument into
  \<open>[ZEUS_CLK_MIN, ZEUS_CLK_MAX]\<close>, with a warning when it was outside (so \<open>CLK_MIN - 1\<close>
  gets the code of \<open>CLK_MIN\<close> and \<open>CLK_MAX + 1\<close> the code of \<open>CLK_MAX\<close>), and for every
  \<open>K\<close> in the range it returns \<open>floor(K * 2 / 3) mod 256\<close>. The clock range is a
  parameter with \<open>0 \<le> ZEUS_CLK_MIN \<le> ZEUS_CLK_MAX\<close> whose largest code fits a byte (the
  conversion of a larger double to \<open>unsigned char\<close> is undefined in C); the double
  arithmetic is any rounding that satisfies \<open>ieee_rounding\<close>.
\<close>

theorem zeus_clk_to_freqcode_clamps:
  assumes "ieee_rounding rnd"
    and "0 \<le> ZEUS_CLK_MIN" and "ZEUS_CLK_MIN \<le> ZEUS_CLK_MAX" and "ZEUS_CLK_MAX * 2 div 3 < 256"
  shows "zeus_clk_to_freqcode rnd ZEUS_CLK_MIN ZEUS_CLK_MAX clk =
           Some (freqcode_spec (max ZEUS_CLK_MIN (min ZEUS_CLK_MAX clk)),
                 if ZEUS_CLK_MAX < clk then [ClockTooHigh clk]
                 else if clk < ZEUS_CLK_MIN then [ClockTooLow clk] else [])"
proof -
  define K where "K = max ZEUS_CLK_MIN (min ZEUS_CLK_MAX clk)"
  have K: "0 \<le> K" "K \<le> ZEUS_CLK_MAX"
    using assms(2,3) by (simp_all add: K_def)
  have "K * 2 div 3 \<le> ZEUS_CLK_MAX * 2 div 3"
    using K(2) by (intro zdiv_mono1) simp_all
  then have "K * 2 div 3 < 256" using assms(4) by simp
  note code = freqcode_in_range [OF assms(1) K(1) this]
  show ?thesis
    using assms(2,3) code
    by (auto simp add: zeus_clk_to_freqcode_def K_def max_def min_def)
qed

text \<open>Exact arithmetic is a rounding in the sense of \<open>ieee_rounding\<close>.\<close>

lemma exact_rounding: "ieee_rounding (\<lambda>x. x)"
  by (simp add: ieee_rounding_def)

theorem zeus_clk_to_freqcode_clamps_witness:
  "ieee_rounding (\<lambda>x. x) \<and> (0::int) \<le> 2 \<and> (2::int) \<le> 382 \<and> (382::int) * 2 div 3 < 256 \<and>
   zeus_clk_to_freqcode (\<lambda>x. x) 2 382 328 = Some (218, []) \<and>
   zeus_clk_to_freqcode (\<lambda>x. x) 2 382 1 = Some (freqcode_spec 2, [ClockTooLow 1]) \<and>
   zeus_clk_to_freqcode (\<lambda>x. x) 2 382 383 = Some (freqcode_spec 382, [ClockTooHigh 383])"
  using zeus_clk_to_freqcode_clamps [OF exact_rounding, of 2 382 328]
    zeus_clk_to_freqcode_clamps [OF exact_rounding, of 2 382 1]
    zeus_clk_to_freqcode_clamps [OF exact_rounding, of 2 382 383]
  by (simp add: exact_rounding freqcode_spec_def)

section \<open>The work slot and the clock\<close>

lemma option_names:
  "strcasecmp_eq ''freq'' ''help'' = False" "strcasecmp_eq ''freq'' ''freq'' = True"
  by (simp_all add: strcasecmp_eq_def tolower_c_def)

lemma zeus_io_thread_send_clock:
  assumes "zeus_io_thread_send ret now info = Some (info', pkts)"
  shows "if pkts \<noteq> [] \<and> 0 \<le> ret
         then next_chip_clk info' = - 1 \<and>
              chip_clk info' = (if next_chip_clk info \<noteq> - 1 then next_chip_clk info else chip_clk info) \<and>
              hd (hd pkts) = freqcode info
         else chip_clk info' = chip_clk info \<and> next_chip_clk info' = next_chip_clk info"
  using assms
  by (auto simp add: zeus_io_thread_send_def zeus_send_work_def zeus_purge_work_def Let_def
        split: option.splits if_splits prod.splits)

text \<open>
  Claim C7. \<open>set_device("freq", v)\<close> with \<open>v\<close> outside \<open>[CLK_MIN, CLK_MAX]\<close> returns an
  error reply and leaves the board, so \<open>freqcode\<close> and \<open>next_chip_clk\<close>, unchanged; with
  \<open>v\<close> in range it sets \<open>next_chip_clk = v\<close> and \<open>freqcode = clk_to_freqcode(v)\<close> at
  once and leaves \<open>chip_clk\<close>; the next step of the I/O loop gives \<open>chip_clk\<close> the value
  \<open>v\<close> if it transmits a work successfully (the packet carries the new code) and leaves
  it otherwise. \<open>v\<close> is \<open>atoi(setting)\<close>; the clock range is a parameter with
  \<open>0 \<le> ZEUS_CLK_MIN\<close>.
\<close>

theorem zeus_set_device_freq:
  assumes "s \<noteq> []" and "0 \<le> ZEUS_CLK_MIN"
  shows "(atoi s < ZEUS_CLK_MIN \<or> ZEUS_CLK_MAX < atoi s \<longrightarrow>
            zeus_set_device rnd ZEUS_CLK_MIN ZEUS_CLK_MAX atoi info ''freq'' (Some s) =
              Some (Some (ReplyInvalidFreq s ZEUS_CLK_MIN ZEUS_CLK_MAX), info, 0)) \<and>
         (ZEUS_CLK_MIN \<le> atoi s \<and> atoi s \<le> ZEUS_CLK_MAX \<and>
          zeus_clk_to_freqcode rnd ZEUS_CLK_MIN ZEUS_CLK_MAX (atoi s) = Some (code, ws) \<longrightarrow>
            zeus_set_device rnd ZEUS_CLK_MIN ZEUS_CLK_MAX atoi info ''freq'' (Some s) =
              Some (None, info\<lparr>next_chip_clk := atoi s, freqcode := code\<rparr>, 0) \<and>
            chip_clk (info\<lparr>next_chip_clk := atoi s, freqcode := code\<rparr>) = chip_clk info \<and>
            (\<forall>ret now info2 pkts.
               zeus_io_thread_send ret now (info\<lparr>next_chip_clk := atoi s, freqcode := code\<rparr>)
                 = Some (info2, pkts) \<longrightarrow>
               (if pkts \<noteq> [] \<and> 0 \<le> ret
                then chip_clk info2 = atoi s \<and> next_chip_clk info2 = - 1 \<and> hd (hd pkts) = code
                else chip_clk info2 = chip_clk info \<and> next_chip_clk info2 = atoi s)))"
proof (intro conjI impI allI)
  assume "atoi s < ZEUS_CLK_MIN \<or> ZEUS_CLK_MAX < atoi s"
  then show "zeus_set_device rnd ZEUS_CLK_MIN ZEUS_CLK_MAX atoi info ''freq'' (Some s) =
              Some (Some (ReplyInvalidFreq s ZEUS_CLK_MIN ZEUS_CLK_MAX), info, 0)"
    using assms(1) by (auto simp add: zeus_set_device_def option_names)
next
  assume "ZEUS_CLK_MIN \<le> atoi s \<and> atoi s \<le> ZEUS_CLK_MAX \<and>
          zeus_clk_to_freqcode rnd ZEUS_CLK_MIN ZEUS_CLK_MAX (atoi s) = Some (code, ws)"
  then show "zeus_set_device rnd ZEUS_CLK_MIN ZEUS_CLK_MAX atoi info ''freq'' (Some s) =
              Some (None, info\<lparr>next_chip_clk := atoi s, freqcode := code\<rparr>, 0)"
    using assms(1) by (auto simp add: zeus_set_device_def option_names)
next
  show "chip_clk (info\<lparr>next_chip_clk := atoi s, freqcode := code\<rparr>) = chip_clk info"
    by simp
next
  fix ret now info2 pkts
  assume range: "ZEUS_CLK_MIN \<le> atoi s \<and> atoi s \<le> ZEUS_CLK_MAX \<and>
          zeus_clk_to_freqcode rnd ZEUS_CLK_MIN ZEUS_CLK_MAX (atoi s) = Some (code, ws)"
    and send: "zeus_io_thread_send ret now (info\<lparr>next_chip_clk := atoi s, freqcode := code\<rparr>)
                 = Some (info2, pkts)"
  have "atoi s \<noteq> - 1" using range assms(2) by simp
  with zeus_io_thread_send_clock [OF send]
  show "if pkts \<noteq> [] \<and> 0 \<le> ret
        then chip_clk info2 = atoi s \<and> next_chip_clk info2 = - 1 \<and> hd (hd pkts) = code
        else chip_clk info2 = chip_clk info \<and> next_chip_clk info2 = atoi s"
    by (simp split: if_splits)
qed

lemma sample_send:
  assumes "current_work b = Some sample_work"
  shows "\<exists>pkt. zeus_send_work ret b sample_work =
           Some (0 \<le> ret, (if ret < 0 then (zeus_purge_work b)\<lparr>device_fd := - 1\<rparr> else b), pkt)"
proof -
  have "80 \<le> length (data sample_work)" "- 1 < work_difficulty sample_work"
    "work_difficulty sample_work < 2 ^ 32"
    by (simp_all add: sample_work_def)
  from zeus_send_work_result [OF this, of ret b] show ?thesis by blast
qed

lemma sample_atoi: "atoi_digits ''300'' = 300" "atoi_digits ''400'' = 400"
  by (simp_all add: atoi_digits_def)

theorem zeus_set_device_freq_witness:
  "''300'' \<noteq> [] \<and> (0::int) \<le> 2 \<and>
   (atoi_digits ''400'' < 2 \<or> 382 < atoi_digits ''400'') \<and>
   zeus_set_device (\<lambda>x. x) 2 382 atoi_digits sample_board ''freq'' (Some ''400'') =
     Some (Some (ReplyInvalidFreq ''400'' 2 382), sample_board, 0) \<and>
   2 \<le> atoi_digits ''300'' \<and> atoi_digits ''300'' \<le> 382 \<and>
   zeus_clk_to_freqcode (\<lambda>x. x) 2 382 (atoi_digits ''300'') = Some (200, []) \<and>
   zeus_set_device (\<lambda>x. x) 2 382 atoi_digits sample_board ''freq'' (Some ''300'') =
     Some (None, sample_board\<lparr>next_chip_clk := 300, freqcode := 200\<rparr>, 0) \<and>
   chip_clk (sample_board\<lparr>next_chip_clk := 300, freqcode := 200\<rparr>) = 328 \<and>
   (\<exists>info2 pkts.
      zeus_io_thread_send 84 \<lparr> tv_sec = 5, tv_usec = 0 \<rparr>
        (sample_board\<lparr>next_chip_clk := 300, freqcode := 200\<rparr>) = Some (info2, pkts) \<and>
      chip_clk info2 = 300 \<and> next_chip_clk info2 = - 1 \<and> hd (hd pkts) = 200) \<and>
   (\<exists>info2 pkts.
      zeus_io_thread_send (- 1) \<lparr> tv_sec = 5, tv_usec = 0 \<rparr>
        (sample_board\<lparr>next_chip_clk := 300, freqcode := 200\<rparr>) = Some (info2, pkts) \<and>
      chip_clk info2 = 328 \<and> next_chip_clk info2 = 300)"
proof -
  let ?b = "sample_board\<lparr>next_chip_clk := 300, freqcode := 200\<rparr>"
  let ?t = "\<lparr> tv_sec = 5, tv_usec = 0 \<rparr>"
  have code: "zeus_clk_to_freqcode (\<lambda>x. x) 2 382 (atoi_digits ''300'') = Some (200, [])"
    by (simp add: sample_atoi zeus_clk_to_freqcode_def double_to_u8_def c_trunc_def)
  have cw: "current_work ?b = Some sample_work" "\<not> devflag sample_work"
    by (simp_all add: sample_board_def sample_work_def)
  obtain p1 where p1: "zeus_send_work 84 ?b sample_work = Some (True, ?b, p1)"
    using sample_send [OF cw(1), of 84] by auto
  obtain p2 where p2: "zeus_send_work (- 1) ?b sample_work
      = Some (False, (zeus_purge_work ?b)\<lparr>device_fd := - 1\<rparr>, p2)"
    using sample_send [OF cw(1), of "- 1"] by auto
  have s1: "\<exists>info2. zeus_io_thread_send 84 ?t ?b = Some (info2, [p1])"
    using cw p1 by (simp add: zeus_io_thread_send_def Let_def)
  have s2: "\<exists>info2. zeus_io_thread_send (- 1) ?t ?b = Some (info2, [p2])"
    using cw p2 by (simp add: zeus_io_thread_send_def Let_def)
  have clk: "chip_clk sample_board = 328"
    by (simp add: sample_board_def detected_board_def)
  have hyps: "''300'' \<noteq> []" "''400'' \<noteq> []" "(0::int) \<le> 2"
    by simp_all
  note in_range = zeus_set_device_freq [OF hyps(1,3),
    where atoi = atoi_digits and ZEUS_CLK_MAX = 382 and rnd = "\<lambda>x. x" and code = 200 and ws = "[]" and info = sample_board]
  note out_range = zeus_set_device_freq [OF hyps(2,3),
    where atoi = atoi_digits and ZEUS_CLK_MAX = 382 and rnd = "\<lambda>x. x" and code = 200 and ws = "[]" and info = sample_board]
  from out_range have refused:
    "zeus_set_device (\<lambda>x. x) 2 382 atoi_digits sample_board ''freq'' (Some ''400'') =
       Some (Some (ReplyInvalidFreq ''400'' 2 382), sample_board, 0)"
    by (simp add: sample_atoi)
  from in_range code have accepted:
    "zeus_set_device (\<lambda>x. x) 2 382 atoi_digits sample_board ''freq'' (Some ''300'') =
       Some (None, ?b, 0)"
    and later: "\<forall>ret now info2 pkts.
       zeus_io_thread_send ret now ?b = Some (info2, pkts) \<longrightarrow>
       (if pkts \<noteq> [] \<and> 0 \<le> ret
        then chip_clk info2 = 300 \<and> next_chip_clk info2 = - 1 \<and> hd (hd pkts) = 200
        else chip_clk info2 = 328 \<and> next_chip_clk info2 = 300)"
    by (simp_all add: sample_atoi clk)
  obtain i1 where i1: "zeus_io_thread_send 84 ?t ?b = Some (i1, [p1])"
    using s1 by blast
  obtain i2 where i2: "zeus_io_thread_send (- 1) ?t ?b = Some (i2, [p2])"
    using s2 by blast
  from later [rule_format, OF i1] have sent:
    "chip_clk i1 = 300 \<and> next_chip_clk i1 = - 1 \<and> hd (hd [p1]) = 200"
    by simp
  from later [rule_format, OF i2] have failed:
    "chip_clk i2 = 328 \<and> next_chip_clk i2 = 300"
    by simp
  show ?thesis
    using refused accepted code i1 i2 sent failed clk
    by (simp add: sample_atoi)
qed

text \<open>
  Claim C9. In \<open>zeus_check_need_work\<close>, every work pulled from the host via \<open>get_work\<close>
  is consumed by exactly one of two paths: it is installed into the current-work slot
  (only if the slot is still empty when the lock is re-acquired, and then with its
  \<open>devflag\<close> false) or it is passed to \<open>discard_work\<close>. No work is pulled when the slot
  is occupied at entry. The slot is an optional work: it never holds more than one.
\<close>

theorem zeus_check_need_work_consumes:
  assumes "zeus_check_need_work info work locked = (need_work, info', discarded, pulled)"
  shows "(current_work info \<noteq> None \<longrightarrow>
            pulled = [] \<and> discarded = [] \<and> \<not> need_work \<and> info' = info) \<and>
         (current_work info = None \<longrightarrow>
            pulled = [work] \<and>
            (current_work locked = None \<and> need_work \<and> discarded = [] \<and>
               info' = locked\<lparr>current_work := Some (work\<lparr>devflag := False\<rparr>)\<rparr>
             \<or> current_work locked \<noteq> None \<and> \<not> need_work \<and> discarded = [work] \<and> info' = locked))"
  using assms by (auto simp add: zeus_check_need_work_def split: if_splits)

theorem zeus_check_need_work_consumes_witness:
  "zeus_check_need_work detected_board sample_work detected_board =
     (True, detected_board\<lparr>current_work := Some (sample_work\<lparr>devflag := False\<rparr>)\<rparr>, [], [sample_work]) \<and>
   zeus_check_need_work detected_board sample_work sample_board =
     (False, sample_board, [sample_work], [sample_work]) \<and>
   zeus_check_need_work sample_board sample_work sample_board = (False, sample_board, [], []) \<and>
   current_work detected_board = None \<and> current_work sample_board \<noteq> None"
proof -
  have slots: "current_work detected_board = None" "current_work sample_board = Some sample_work"
    by (simp_all add: detected_board_def sample_board_def)
  obtain n1 i1 d1 p1 where r1:
    "zeus_check_need_work detected_board sample_work detected_board = (n1, i1, d1, p1)"
    by (cases "zeus_check_need_work detected_board sample_work detected_board") auto
  obtain n2 i2 d2 p2 where r2:
    "zeus_check_need_work detected_board sample_work sample_board = (n2, i2, d2, p2)"
    by (cases "zeus_check_need_work detected_board sample_work sample_board") auto
  obtain n3 i3 d3 p3 where r3:
    "zeus_check_need_work sample_board sample_work sample_board = (n3, i3, d3, p3)"
    by (cases "zeus_check_need_work sample_board sample_work sample_board") auto
  from zeus_check_need_work_consumes [OF r1] zeus_check_need_work_consumes [OF r2]
    zeus_check_need_work_consumes [OF r3] r1 r2 r3 slots
  show ?thesis
    by auto
qed

section \<open>The hash estimate\<close>

subsection \<open>Truncation near the floor\<close>



subsection \<open>The error of the rounded product\<close>





subsection \<open>The concrete rounding\<close>


lemma round_half_even_int: "round_half_even (real_of_int k) = k"
  by (simp add: round_half_even_def)










subsection \<open>The estimate\<close>




end
